theory Spec2Isabelle
  imports Complex_Main
begin

section \<open>JavaScript values\<close>

text \<open>
  The application is three React components (\<open>Layout\<close>, \<open>AddMovie\<close>, \<open>Home\<close>) and a
  router table. Its data are plain JavaScript values: the movie object literal, the
  genre list, the JSON body of the genre request and the values held by the form.
  A string is the list of its code units, so \<open>length\<close> is JavaScript's \<open>.length\<close>.
  A number is \<open>NaN\<close>, an infinity or a finite value; the finite values the source writes
  (\<open>1\<close>, \<open>2010\<close>, \<open>8.8\<close>) are rationals.
\<close>

datatype jsnum = NaN | PosInf | NegInf | Fin rat

datatype jsval =
    JUndefined
  | JNull
  | JBool bool
  | JNum jsnum
  | JStr string
  | JArr "jsval list"
  | JObj "(string \<times> jsval) list"

text \<open>
  What a render can raise: a \<open>TypeError\<close> of the language, or the response with a
  status that the router raises itself (404 when no route matches the location).
\<close>

datatype js_error = TypeError | ErrorResponse nat

text \<open>
  What the application is linked against and does not define itself: the conversion
  of strings, arrays and objects to numbers (ECMAScript \<open>StringToNumber\<close> and
  \<open>ToPrimitive\<close>), whether the installed schema library's number type refuses the
  infinities (its version 4 does, version 3 does not), the router's path matcher, and
  whether the build is a development build (\<open>npm run dev\<close>) or a production build.
  Every theorem below holds for any such runtime.
\<close>

record runtime =
  ToNumber_conv :: "jsval \<Rightarrow> jsnum"
  number_finite_only :: bool
  matchPath :: "string \<Rightarrow> string \<Rightarrow> bool"
  development :: bool

text \<open>\<open>Number(v)\<close>: fixed by the language on \<open>undefined\<close>, \<open>null\<close>, booleans and numbers.\<close>

fun Number :: "runtime \<Rightarrow> jsval \<Rightarrow> jsnum" where
  "Number rt JUndefined = NaN"
| "Number rt JNull = Fin 0"
| "Number rt (JBool b) = (if b then Fin 1 else Fin 0)"
| "Number rt (JNum n) = n"
| "Number rt v = ToNumber_conv rt v"

text \<open>
  Property access \<open>v.k\<close> for a key \<open>k\<close> that no prototype defines (the source reads
  \<open>id\<close>, \<open>name\<close>, \<open>title\<close>, \<open>year\<close>, \<open>genre\<close>, \<open>rating\<close>, \<open>description\<close>): an own property
  of an object, \<open>undefined\<close> on any other value, and a \<open>TypeError\<close> on \<open>null\<close> and
  \<open>undefined\<close>.
\<close>

fun own_property :: "(string \<times> jsval) list \<Rightarrow> string \<Rightarrow> jsval" where
  "own_property [] k = JUndefined"
| "own_property ((k', v) # kvs) k = (if k' = k then v else own_property kvs k)"

fun get_prop :: "jsval \<Rightarrow> string \<Rightarrow> js_error + jsval" where
  "get_prop JUndefined k = Inl TypeError"
| "get_prop JNull k = Inl TypeError"
| "get_prop (JObj kvs) k = Inr (own_property kvs k)"
| "get_prop v k = Inr JUndefined"

fun object_keys :: "jsval \<Rightarrow> string list" where
  "object_keys (JObj kvs) = map fst kvs"
| "object_keys v = []"

section \<open>The add-movie form schema\<close>

text \<open>
  The schema is a \<open>z.object\<close> of five fields. \<open>z.string(opts).min(n, msg)\<close> accepts
  a string of at least \<open>n\<close> code units; \<open>z.coerce.number(opts)\<close> applies \<open>Number\<close> to
  its input and accepts the result unless it is \<open>NaN\<close> (or, where the library refuses
  them, an infinity). The messages are kept as the source writes them.
\<close>

datatype ztype =
    ZString string nat string
  | ZCoerceNumber string string

definition schema :: "(string \<times> ztype) list" where
  "schema =
    [(''name'', ZString ''Movie name is required'' 2 ''Name must be at least 2 characters''),
     (''description'',
        ZString ''Description is required'' 10 ''Description must be at least 10 characters''),
     (''year'', ZCoerceNumber ''Year must be a number'' ''Movie year is required''),
     (''duration'', ZCoerceNumber ''Duration must be a number'' ''Movie duration is required''),
     (''genre_id'', ZCoerceNumber ''Genre must be a number'' ''Movie genre is required'')]"

datatype issue = invalid_type | too_small

fun number_ok :: "runtime \<Rightarrow> jsnum \<Rightarrow> bool" where
  "number_ok rt NaN = False"
| "number_ok rt PosInf = (\<not> number_finite_only rt)"
| "number_ok rt NegInf = (\<not> number_finite_only rt)"
| "number_ok rt (Fin q) = True"

fun parse_field :: "runtime \<Rightarrow> ztype \<Rightarrow> jsval \<Rightarrow> issue + jsval" where
  "parse_field rt (ZString type_msg n min_msg) (JStr s) =
     (if n \<le> length s then Inr (JStr s) else Inl too_small)"
| "parse_field rt (ZString type_msg n min_msg) v = Inl invalid_type"
| "parse_field rt (ZCoerceNumber type_msg msg) v =
     (if number_ok rt (Number rt v) then Inr (JNum (Number rt v)) else Inl invalid_type)"

text \<open>
  \<open>z.object\<close> parses every field of its shape against the input object's property of
  that name (a missing property reads as \<open>undefined\<close>), collects all issues, and on
  success returns an object with exactly the shape's keys.
\<close>

fun parse_issues :: "runtime \<Rightarrow> (string \<times> ztype) list \<Rightarrow> (string \<times> jsval) list
    \<Rightarrow> (string \<times> issue) list" where
  "parse_issues rt [] input = []"
| "parse_issues rt ((k, t) # shape) input =
     (case parse_field rt t (own_property input k) of
        Inl i \<Rightarrow> (k, i) # parse_issues rt shape input
      | Inr v \<Rightarrow> parse_issues rt shape input)"

fun parse_output :: "runtime \<Rightarrow> (string \<times> ztype) list \<Rightarrow> (string \<times> jsval) list
    \<Rightarrow> (string \<times> jsval) list" where
  "parse_output rt [] input = []"
| "parse_output rt ((k, t) # shape) input =
     (case parse_field rt t (own_property input k) of
        Inl i \<Rightarrow> parse_output rt shape input
      | Inr v \<Rightarrow> (k, v) # parse_output rt shape input)"

definition safeParse :: "runtime \<Rightarrow> (string \<times> ztype) list \<Rightarrow> (string \<times> jsval) list
    \<Rightarrow> (string \<times> issue) list + jsval" where
  "safeParse rt shape input =
     (if parse_issues rt shape input = [] then Inr (JObj (parse_output rt shape input))
      else Inl (parse_issues rt shape input))"

text \<open>
  \<open>zodResolver(schema)\<close>: the form library's resolver. It returns either the parsed
  values and no errors, or no values and the issues keyed by field.
\<close>

definition zodResolver :: "runtime \<Rightarrow> (string \<times> ztype) list \<Rightarrow> (string \<times> jsval) list
    \<Rightarrow> (string \<times> issue) list + jsval" where
  "zodResolver rt shape values = safeParse rt shape values"

section \<open>Effects\<close>

text \<open>
  What an operation does beyond changing component state: a network request (method
  and URL; \<open>fetch(url)\<close> without options is a \<open>GET\<close>), a line on the console, or a
  rejected promise that nothing catches.
\<close>

datatype effect =
    Fetch string string
  | ConsoleLog jsval
  | UnhandledRejection

fun is_network :: "effect \<Rightarrow> bool" where
  "is_network (Fetch method url) = True"
| "is_network e = False"

section \<open>The AddMovie component\<close>

text \<open>
  Its hook state: the \<open>genres\<close> cell of \<open>useState([])\<close> (which shadows the module-level
  \<open>genres\<close>) and the form state of \<open>useForm\<close> (the errors by field, and whether a
  submission is in progress).
\<close>

record add_movie_state =
  genres_state :: jsval
  errors :: "(string \<times> issue) list"
  isSubmitting :: bool

definition genres :: jsval where
  "genres = JArr
    [JObj [(''id'', JNum (Fin 1)), (''name'', JStr ''Action'')],
     JObj [(''id'', JNum (Fin 2)), (''name'', JStr ''Comedy'')],
     JObj [(''id'', JNum (Fin 3)), (''name'', JStr ''Drama'')],
     JObj [(''id'', JNum (Fin 4)), (''name'', JStr ''Horror'')],
     JObj [(''id'', JNum (Fin 5)), (''name'', JStr ''Romance'')]]"

definition AddMovie_init :: add_movie_state where
  "AddMovie_init = \<lparr>genres_state = JArr [], errors = [], isSubmitting = False\<rparr>"

text \<open>
  The body of the effect of \<open>useEffect(..., [])\<close>. One run of it issues the request;
  the two \<open>then\<close> continuations run when the request settles. The effect returns no
  cleanup, so nothing cancels a request.
\<close>

definition AddMovie_effect :: "effect list" where
  "AddMovie_effect = [Fetch ''GET'' ''http://localhost:8000/genre'']"

text \<open>
  How the promise chain \<open>fetch(url).then(res => res.json()).then(data => setGenres(data))\<close>
  settles: \<open>fetch\<close> rejects, or \<open>res.json()\<close> rejects, or it resolves with the parsed body.
  Only the last reaches \<open>setGenres\<close>; the chain has no \<open>catch\<close>, so a rejection is
  left unhandled and the state is as before.
\<close>

datatype fetch_outcome = NetworkError | InvalidJSON | Json jsval

fun genres_settled :: "fetch_outcome \<Rightarrow> add_movie_state \<Rightarrow> add_movie_state \<times> effect list" where
  "genres_settled (Json data) s = (s\<lparr>genres_state := data\<rparr>, [])"
| "genres_settled NetworkError s = (s, [UnhandledRejection])"
| "genres_settled InvalidJSON s = (s, [UnhandledRejection])"

text \<open>
  \<open>form.handleSubmit(onValid)\<close>: runs the resolver on the form's values, stores the
  errors in the form state, and calls \<open>onValid\<close> with the parsed values only when
  there are none. The callback of the source is \<open>(data) => console.log(data)\<close>.
\<close>

definition handleSubmit ::
  "((string \<times> jsval) list \<Rightarrow> (string \<times> issue) list + jsval) \<Rightarrow> (jsval \<Rightarrow> effect list)
    \<Rightarrow> (string \<times> jsval) list \<Rightarrow> add_movie_state \<Rightarrow> add_movie_state \<times> effect list" where
  "handleSubmit resolver onValid values s =
     (case resolver values of
        Inl errs \<Rightarrow> (s\<lparr>errors := errs, isSubmitting := False\<rparr>, [])
      | Inr data \<Rightarrow> (s\<lparr>errors := [], isSubmitting := False\<rparr>, onValid data))"

definition onSubmit :: "runtime \<Rightarrow> (string \<times> jsval) list \<Rightarrow> add_movie_state
    \<Rightarrow> add_movie_state \<times> effect list" where
  "onSubmit rt = handleSubmit (zodResolver rt schema) (\<lambda>data. [ConsoleLog data])"


section \<open>Rendered trees\<close>

text \<open>
  A component returns a tree of elements. An attribute is a string, a JavaScript
  value, or a reference to something a hook or the form library hands to the
  component (\<open>form.control\<close>, \<open>field.onChange\<close>, the \<open>onSubmit\<close> handler). A child is
  literal text, the value of an expression in braces, or an element. The result of a
  \<open>render\<close> property is placed under its \<open>FormField\<close>, which renders it.
\<close>

datatype attr = Str string | Val jsval | Ref string

datatype vnode =
    Text string
  | Value jsval
  | El string "(string \<times> attr) list" "vnode list"

text \<open>\<open>xs.map((x, index) => f)\<close>: the callback receives the element and its index.\<close>

definition Array_map :: "('a \<Rightarrow> nat \<Rightarrow> 'b) \<Rightarrow> 'a list \<Rightarrow> 'b list" where
  "Array_map f xs = map (\<lambda>(x, index). f x index) (zip xs [0..<length xs])"

text \<open>The same where the callback may throw: the first exception ends the loop.\<close>

fun Array_map_throwing :: "('a \<Rightarrow> js_error + 'b) \<Rightarrow> 'a list \<Rightarrow> js_error + 'b list" where
  "Array_map_throwing f [] = Inr []"
| "Array_map_throwing f (x # xs) =
     (case f x of
        Inl e \<Rightarrow> Inl e
      | Inr y \<Rightarrow> (case Array_map_throwing f xs of Inl e \<Rightarrow> Inl e | Inr ys \<Rightarrow> Inr (y # ys)))"

text \<open>
  Reading a rendered tree: the elements of a tag in document order, and the literal
  text of a tree (the text written in the markup; values of expressions are not part
  of it).
\<close>

fun elements :: "string \<Rightarrow> vnode \<Rightarrow> vnode list" where
  "elements tag (Text s) = []"
| "elements tag (Value v) = []"
| "elements tag (El t as cs) =
     (if t = tag then [El t as cs] else []) @ concat (map (elements tag) cs)"

fun literal_text :: "vnode \<Rightarrow> string" where
  "literal_text (Text s) = s"
| "literal_text (Value v) = []"
| "literal_text (El t as cs) = concat (map literal_text cs)"

fun attr_of :: "vnode \<Rightarrow> string \<Rightarrow> attr option" where
  "attr_of (El t as cs) k = map_of as k"
| "attr_of v k = None"

section \<open>The Layout component\<close>

text \<open>
  \<open>pathname\<close> is what \<open>useLocation()\<close> returns. The navigation bar is the \<open>nav\<close> element
  of the source; \<open>Layout\<close> puts its children below it.
\<close>

definition Layout_nav :: "string \<Rightarrow> vnode" where
  "Layout_nav pathname =
    El ''nav'' [(''className'', Str ''bg-card border-b border-border'')]
     [El ''div'' [(''className'', Str ''max-w-7xl mx-auto px-4 py-4'')]
       [El ''div'' [(''className'', Str ''flex items-center justify-between'')]
         [El ''Link'' [(''to'', Str ''/''), (''className'', Str ''text-2xl font-bold text-primary'')]
            [Text ''Movie App''],
          El ''div'' [(''className'', Str ''flex gap-4'')]
           [El ''Link''
              [(''to'', Str ''/''),
               (''className'', Str (''px-4 py-2 rounded-lg transition-colors '' @
                  (if pathname = ''/''
                   then ''bg-primary text-primary-foreground''
                   else ''text-foreground hover:bg-secondary hover:text-white'')))]
              [Text ''Movies''],
            El ''Link''
              [(''to'', Str ''/add-movie''),
               (''className'', Str (''px-4 py-2 rounded-lg transition-colors '' @
                  (if pathname = ''/add-movie''
                   then ''bg-primary text-primary-foreground''
                   else ''text-foreground hover:bg-secondary hover:text-white'')))]
              [Text ''Add Movie'']]]]]"

definition Layout :: "string \<Rightarrow> vnode list \<Rightarrow> vnode" where
  "Layout pathname children =
    El ''div'' [] [Layout_nav pathname, El ''div'' [(''className'', Str ''p-3'')] children]"


definition link_class :: "vnode \<Rightarrow> string \<Rightarrow> attr option" where
  "link_class t label =
     (case filter (\<lambda>l. literal_text l = label) (elements ''Link'' t) of
        [] \<Rightarrow> None
      | l # ls \<Rightarrow> attr_of l ''className'')"

section \<open>The Home component\<close>

definition movie :: jsval where
  "movie = JObj
    [(''id'', JNum (Fin 1)),
     (''title'', JStr ''Inception''),
     (''year'', JNum (Fin 2010)),
     (''genre'', JStr ''Sci-Fi''),
     (''rating'', JNum (Fin (88 / 10))),
     (''description'', JStr (''A thief who steals corporate secrets through the use of '' @
        ''dream-sharing technology is given the inverse task of planting an idea into '' @
        ''the mind of a C.E.O.''))]"

text \<open>The initial value of the \<open>movies\<close> cell: \<open>useState([movie, movie, movie, movie])\<close>.\<close>

definition Home_init :: "jsval list" where
  "Home_init = [movie, movie, movie, movie]"

text \<open>
  A property of the object literal \<open>movie\<close>; the receiver is an object, so the read
  cannot throw.
\<close>

fun dot :: "jsval \<Rightarrow> string \<Rightarrow> jsval" where
  "dot (JObj kvs) k = own_property kvs k"
| "dot v k = JUndefined"

text \<open>
  The card that the callback of \<open>movies.map((_, index) => ...)\<close> returns. Neither
  parameter occurs in its body; every expression reads the module-level \<open>movie\<close>.
\<close>

fun Home_card :: "jsval \<Rightarrow> nat \<Rightarrow> vnode" where
  "Home_card _ index =
    El ''Card''
      [(''key'', Val (dot movie ''id'')),
       (''className'', Str ''flex flex-col gap-4 p-6 hover:border-primary transition-colors'')]
      [El ''div'' []
        [El ''h2'' [(''className'', Str ''text-xl font-bold text-foreground mb-2'')]
           [Value (dot movie ''title'')],
         El ''div'' [(''className'', Str ''flex gap-2 mb-2'')]
           [El ''span'' [(''className'', Str ''text-sm px-3 py-1 bg-secondary rounded-full text-white'')]
              [Value (dot movie ''year'')],
            El ''span'' [(''className'', Str ''text-sm px-3 py-1 bg-secondary rounded-full text-white'')]
              [Value (dot movie ''genre'')]]],
       El ''div'' [(''className'', Str ''flex items-center gap-2'')]
        [El ''span'' [(''className'', Str ''text-2xl font-bold text-gray-700'')]
           [Value (dot movie ''rating'')],
         El ''span'' [(''className'', Str ''text-muted-foreground'')] [Text ''/10'']],
       El ''p'' [(''className'', Str ''text-sm text-muted-foreground line-clamp-3'')]
        [Value (dot movie ''description'')],
       El ''Button''
        [(''variant'', Str ''destructive''), (''className'', Str ''mt-auto hover:cursor-pointer'')]
        [Text ''Delete'']]"

definition Home_cards :: "jsval list \<Rightarrow> vnode list" where
  "Home_cards movies = Array_map Home_card movies"

definition Home :: "jsval list \<Rightarrow> vnode" where
  "Home movies =
    El ''div'' []
      [El ''h1'' [(''className'', Str ''text-4xl font-bold mb-8'')] [Text ''My Movies''],
       El ''div'' [(''className'', Str ''grid grid-cols-1 md:grid-cols-2 lg:grid-cols-4 gap-6'')]
         (Home_cards movies)]"


section \<open>What the AddMovie component renders\<close>

text \<open>
  An identifier is looked up in the innermost scope that binds it. The module binds
  \<open>genres\<close> to the static list; the body of \<open>AddMovie\<close> binds \<open>genres\<close> again, to the state
  cell.
\<close>

definition module_scope :: "(string \<times> jsval) list" where
  "module_scope = [(''genres'', genres)]"

definition AddMovie_scope :: "add_movie_state \<Rightarrow> (string \<times> jsval) list" where
  "AddMovie_scope s = [(''genres'', genres_state s)]"

fun resolve :: "(string \<times> jsval) list list \<Rightarrow> string \<Rightarrow> jsval option" where
  "resolve [] x = None"
| "resolve (scope # outer) x =
     (case map_of scope x of Some v \<Rightarrow> Some v | None \<Rightarrow> resolve outer x)"

text \<open>The callback of \<open>genres.map((genre) => ...)\<close>: one \<open>SelectItem\<close> per element.\<close>

definition SelectItem :: "jsval \<Rightarrow> js_error + vnode" where
  "SelectItem genre =
     (case get_prop genre ''id'' of
        Inl e \<Rightarrow> Inl e
      | Inr i \<Rightarrow>
          (case get_prop genre ''name'' of
             Inl e \<Rightarrow> Inl e
           | Inr n \<Rightarrow> Inr (El ''SelectItem'' [(''key'', Val i), (''value'', Val i)] [Value n])))"

text \<open>\<open>genres.map(...)\<close> in a scope chain: a \<open>TypeError\<close> unless \<open>genres\<close> is an array.\<close>

definition SelectItems :: "(string \<times> jsval) list list \<Rightarrow> js_error + vnode list" where
  "SelectItems scopes =
     (case resolve scopes ''genres'' of
        Some (JArr gs) \<Rightarrow> Array_map_throwing SelectItem gs
      | _ \<Rightarrow> Inl TypeError)"

definition AddMovie_form :: "add_movie_state \<Rightarrow> vnode list \<Rightarrow> vnode" where
  "AddMovie_form s items =
    El ''form'' [(''className'', Str ''space-y-6''), (''noValidate'', Val (JBool True)),
                 (''onSubmit'', Ref ''onSubmit'')]
     [El ''FormField'' [(''control'', Ref ''form.control''), (''name'', Str ''name'')]
       [El ''FormItem'' []
         [El ''FormLabel'' [] [Text ''Name''],
          El ''FormControl'' []
            [El ''Input'' [(''placeholder'', Str ''Movie name''), (''...'', Ref ''field'')] []],
          El ''FormMessage'' [] []]],
      El ''div'' [(''className'', Str ''grid grid-cols-1 md:grid-cols-2 gap-2'')]
       [El ''FormField'' [(''control'', Ref ''form.control''), (''name'', Str ''year'')]
         [El ''FormItem'' []
           [El ''FormLabel'' [] [Text ''Year''],
            El ''FormControl'' []
              [El ''Input'' [(''placeholder'', Str ''Year''), (''type'', Str ''number''),
                             (''...'', Ref ''field'')] []],
            El ''FormMessage'' [] []]],
        El ''FormField'' [(''control'', Ref ''form.control''), (''name'', Str ''genre_id'')]
         [El ''FormItem'' []
           [El ''FormLabel'' [] [Text ''Genre''],
            El ''FormControl'' []
              [El ''Select'' [(''name'', Ref ''field.name''), (''value'', Ref ''field.value''),
                              (''onValueChange'', Ref ''field.onChange'')]
                [El ''SelectTrigger'' [(''className'', Str ''w-full'')]
                   [El ''SelectValue'' [(''placeholder'', Str ''Select genre'')] []],
                 El ''SelectContent'' [] items]],
            El ''FormMessage'' [] []]]],
      El ''FormField'' [(''control'', Ref ''form.control''), (''name'', Str ''description'')]
       [El ''FormItem'' []
         [El ''FormLabel'' [] [Text ''Description''],
          El ''FormControl'' []
            [El ''Textarea''
               [(''placeholder'', Str ''Add a brief description or review of the movie...''),
                (''rows'', Val (JNum (Fin 5))), (''...'', Ref ''field'')] []],
          El ''FormMessage'' [] []]],
      El ''div'' [(''className'', Str ''flex gap-4'')]
       [El ''Button'' [(''type'', Str ''submit''), (''disabled'', Val (JBool (isSubmitting s)))]
          [Value (JStr (if isSubmitting s then ''Adding...'' else ''Add Movie''))]]]"

definition AddMovie :: "add_movie_state \<Rightarrow> js_error + vnode" where
  "AddMovie s =
     (case SelectItems [AddMovie_scope s, module_scope] of
        Inl e \<Rightarrow> Inl e
      | Inr items \<Rightarrow>
          Inr (El ''div'' [(''className'', Str ''w-full flex items-center justify-center'')]
            [El ''div'' [(''className'', Str ''min-w-xl max-w-2xl w-full py-16 px-8'')]
              [El ''h1'' [(''className'', Str ''text-4xl font-bold mb-8'')] [Text ''Add New Movie''],
               El ''Card'' [(''className'', Str ''p-8'')]
                 [El ''Form'' [(''...'', Ref ''form'')] [AddMovie_form s items]]]]))"

text \<open>
  Modelled from the spec: the \<open>FormField\<close> component of \<open>components/ui/form\<close>, which
  is not among the sources. It gives the field of its \<open>name\<close> property to what is
  rendered inside it.
\<close>

fun field_name :: "vnode \<Rightarrow> string list" where
  "field_name f = (case attr_of f ''name'' of Some (Str n) \<Rightarrow> [n] | _ \<Rightarrow> [])"

text \<open>
  Modelled from the spec: the \<open>FormMessage\<close> component of \<open>components/ui/form\<close>, which
  is not among the sources. Placed inside a \<open>FormField\<close>, it shows the validation error
  of that field, inline. The fields of a page that have one:
\<close>

definition message_fields :: "vnode \<Rightarrow> string list" where
  "message_fields t =
     concat (map field_name
       (filter (\<lambda>f. elements ''FormMessage'' f \<noteq> []) (elements ''FormField'' t)))"

text \<open>
  Modelled from the spec: what the form integration surfaces of the errors in the form
  state, namely those of the fields that have a \<open>FormMessage\<close>; an error of a field
  without one is shown nowhere.
\<close>

definition surfaced :: "vnode \<Rightarrow> (string \<times> issue) list \<Rightarrow> (string \<times> issue) list" where
  "surfaced t errs = filter (\<lambda>(k, i). k \<in> set (message_fields t)) errs"

section \<open>The router and the running application\<close>

text \<open>
  What \<open>main.jsx\<close> renders into the page: the toaster and the router provider, inside
  \<open>StrictMode\<close>.
\<close>

definition root :: vnode where
  "root =
    El ''StrictMode'' []
      [El ''Toaster'' [(''position'', Str ''top-right'')] [],
       El ''RouterProvider'' [(''router'', Ref ''router'')] []]"

text \<open>
  An effect with an empty dependency list runs after its component has mounted. For
  a component below \<open>StrictMode\<close>, a development build then runs it a second time
  (mount, simulated unmount, mount again); a production build runs it once.
\<close>

definition strict :: bool where
  "strict = (filter (\<lambda>sm. elements ''RouterProvider'' sm \<noteq> []) (elements ''StrictMode'' root) \<noteq> [])"

definition effect_runs :: "runtime \<Rightarrow> nat" where
  "effect_runs rt = (if development rt \<and> strict then 2 else 1)"

definition AddMovie_mount_effects :: "runtime \<Rightarrow> effect list" where
  "AddMovie_mount_effects rt = concat (replicate (effect_runs rt) AddMovie_effect)"

definition router :: "(string \<times> vnode) list" where
  "router =
    [(''/'', El ''Layout'' [] [El ''Home'' [] []]),
     (''/add-movie'', El ''Layout'' [] [El ''AddMovie'' [] []])]"

definition matchRoutes :: "runtime \<Rightarrow> (string \<times> vnode) list \<Rightarrow> string
    \<Rightarrow> (string \<times> vnode) option" where
  "matchRoutes rt routes p = find (\<lambda>(path, element). matchPath rt path p) routes"

text \<open>
  The page that is mounted, with the state of its hooks. An \<open>AddMovie\<close> instance
  carries a number: the continuation of its request calls the \<open>setGenres\<close> of that
  instance, and a state update of an instance that is gone does nothing.
\<close>

datatype page = NoMatch | HomePage "jsval list" | AddMoviePage nat add_movie_state

record app_state =
  pathname :: string
  page :: page
  mounts :: nat

definition App_start :: app_state where
  "App_start = \<lparr>pathname = [], page = NoMatch, mounts = 0\<rparr>"

text \<open>
  Mounting a route element: \<open>Layout\<close> has no state and mounts its child; \<open>Home\<close> starts
  with its initial list; \<open>AddMovie\<close> starts with its initial state and its mount
  effect runs, once or twice as the build has it.
\<close>

fun mount :: "runtime \<Rightarrow> nat \<Rightarrow> vnode \<Rightarrow> page \<times> effect list" where
  "mount rt n (El tag as cs) =
     (if tag = ''Home'' then (HomePage Home_init, [])
      else if tag = ''AddMovie'' then (AddMoviePage n AddMovie_init, AddMovie_mount_effects rt)
      else if tag = ''Layout'' then (case cs of [c] \<Rightarrow> mount rt n c | _ \<Rightarrow> (NoMatch, []))
      else (NoMatch, []))"
| "mount rt n v = (NoMatch, [])"

fun same_component :: "page \<Rightarrow> page \<Rightarrow> bool" where
  "same_component NoMatch NoMatch = True"
| "same_component (HomePage ms) (HomePage ms') = True"
| "same_component (AddMoviePage i a) (AddMoviePage j b) = True"
| "same_component p q = False"

text \<open>
  A change of location. The component of the matched route stays mounted, with its
  state, when it is the one already shown; otherwise the old page is unmounted and
  the new one mounted.
\<close>

definition navigate :: "runtime \<Rightarrow> string \<Rightarrow> app_state \<Rightarrow> app_state \<times> effect list" where
  "navigate rt p s =
     (case matchRoutes rt router p of
        None \<Rightarrow> (s\<lparr>pathname := p, page := NoMatch\<rparr>, [])
      | Some (path, element) \<Rightarrow>
          (case mount rt (Suc (mounts s)) element of
             (pg, effs) \<Rightarrow>
               if same_component pg (page s) then (s\<lparr>pathname := p\<rparr>, [])
               else (s\<lparr>pathname := p, page := pg, mounts := Suc (mounts s)\<rparr>, effs)))"

text \<open>
  What can happen to the running application: the location changes (first load, a
  \<open>Link\<close>, the address bar), the form is submitted with the values it holds, the genre
  request of an instance settles (each request that was issued settles on its own),
  or a \<open>Delete\<close> button is clicked. The button has no
  \<open>onClick\<close> (the source keeps it in a comment), so the click does nothing.
\<close>

datatype event =
    Navigate string
  | Submit "(string \<times> jsval) list"
  | Settled nat fetch_outcome
  | ClickDelete nat

fun step :: "runtime \<Rightarrow> event \<Rightarrow> app_state \<Rightarrow> app_state \<times> effect list" where
  "step rt (Navigate p) s = navigate rt p s"
| "step rt (Submit values) s =
     (case page s of
        AddMoviePage i a \<Rightarrow>
          (case onSubmit rt values a of (a', effs) \<Rightarrow> (s\<lparr>page := AddMoviePage i a'\<rparr>, effs))
      | _ \<Rightarrow> (s, []))"
| "step rt (Settled i outcome) s =
     (case page s of
        AddMoviePage j a \<Rightarrow>
          (if i = j
           then (case genres_settled outcome a of
                   (a', effs) \<Rightarrow> (s\<lparr>page := AddMoviePage j a'\<rparr>, effs))
           else (s, snd (genres_settled outcome AddMovie_init)))
      | _ \<Rightarrow> (s, snd (genres_settled outcome AddMovie_init)))"
| "step rt (ClickDelete k) s = (s, [])"

fun run :: "runtime \<Rightarrow> event list \<Rightarrow> app_state \<Rightarrow> app_state \<times> effect list" where
  "run rt [] s = (s, [])"
| "run rt (e # es) s =
     (case step rt e s of
        (s', effs) \<Rightarrow> (case run rt es s' of (s'', effs') \<Rightarrow> (s'', effs @ effs')))"

fun movies_of :: "app_state \<Rightarrow> jsval list option" where
  "movies_of s = (case page s of HomePage ms \<Rightarrow> Some ms | _ \<Rightarrow> None)"

fun genres_of :: "app_state \<Rightarrow> jsval option" where
  "genres_of s = (case page s of AddMoviePage i a \<Rightarrow> Some (genres_state a) | _ \<Rightarrow> None)"

text \<open>What the router shows: the matched route's element, \<open>Layout\<close> around the page.\<close>

definition view :: "app_state \<Rightarrow> js_error + vnode" where
  "view s =
     (case page s of
        HomePage ms \<Rightarrow> Inr (Layout (pathname s) [Home ms])
      | AddMoviePage i a \<Rightarrow>
          (case AddMovie a of Inl e \<Rightarrow> Inl e | Inr t \<Rightarrow> Inr (Layout (pathname s) [t]))
      | NoMatch \<Rightarrow> Inl (ErrorResponse 404))"


section \<open>Sample inputs\<close>

text \<open>
  Runtimes and form values on which the theorems are instantiated. The values hold
  numbers where the schema coerces, so the runtimes' conversion is never consulted;
  their matcher is equality of paths. The first is a production build, the second a
  development build.
\<close>

definition sample_runtime :: runtime where
  "sample_runtime =
     \<lparr>ToNumber_conv = (\<lambda>v. NaN), number_finite_only = True, matchPath = (\<lambda>path p. path = p),
      development = False\<rparr>"

definition sample_dev_runtime :: runtime where
  "sample_dev_runtime =
     \<lparr>ToNumber_conv = (\<lambda>v. NaN), number_finite_only = True, matchPath = (\<lambda>path p. path = p),
      development = True\<rparr>"

definition sample_values :: "(string \<times> jsval) list" where
  "sample_values =
    [(''name'', JStr ''Inception''), (''description'', JStr ''A thief who steals''),
     (''year'', JNum (Fin 2010)), (''duration'', JNum (Fin 148)), (''genre_id'', JNum (Fin 1))]"

definition sample_add_movie :: app_state where
  "sample_add_movie = \<lparr>pathname = ''/add-movie'', page = AddMoviePage 1 AddMovie_init, mounts = 1\<rparr>"

section \<open>Submitting the form\<close>

lemma parse_issues_schema:
  "parse_issues rt schema values = [] \<longleftrightarrow>
     (\<exists>s. own_property values ''name'' = JStr s \<and> 2 \<le> length s) \<and>
     (\<exists>s. own_property values ''description'' = JStr s \<and> 10 \<le> length s) \<and>
     number_ok rt (Number rt (own_property values ''year'')) \<and>
     number_ok rt (Number rt (own_property values ''duration'')) \<and>
     number_ok rt (Number rt (own_property values ''genre_id''))"
  unfolding schema_def
  by (cases "own_property values ''name''"; cases "own_property values ''description''")
     (simp_all split: sum.splits)

lemma onSubmit_cases:
  "onSubmit rt values a =
     (a\<lparr>errors := parse_issues rt schema values, isSubmitting := False\<rparr>,
      if parse_issues rt schema values = []
      then [ConsoleLog (JObj (parse_output rt schema values))] else [])"
  by (simp add: onSubmit_def handleSubmit_def zodResolver_def safeParse_def)

text \<open>
  Claim C1: for every submission of the add-movie form, the submit handler makes no
  network call. Its only effect is at most one console line holding the validated
  data, and the route, the movie list and the genre list are as before.
\<close>

theorem submit_only_logs:
  assumes "step rt (Submit values) s = (s', effs)"
  shows "pathname s' = pathname s \<and> movies_of s' = movies_of s \<and> genres_of s' = genres_of s
     \<and> mounts s' = mounts s \<and> filter is_network effs = []
     \<and> (effs = [] \<or> (\<exists>data. zodResolver rt schema values = Inr data \<and> effs = [ConsoleLog data]))"
  using assms
  by (cases "page s") (auto simp: onSubmit_cases zodResolver_def safeParse_def split: if_splits)

theorem submit_only_logs_witness:
  "step sample_runtime (Submit sample_values) sample_add_movie
     = (sample_add_movie, [ConsoleLog (JObj sample_values)])
   \<and> pathname sample_add_movie = ''/add-movie''
   \<and> genres_of sample_add_movie = Some (JArr [])
   \<and> filter is_network [ConsoleLog (JObj sample_values)] = []
   \<and> zodResolver sample_runtime schema sample_values = Inr (JObj sample_values)"
proof -
  have submitted: "step sample_runtime (Submit sample_values) sample_add_movie
      = (sample_add_movie, [ConsoleLog (JObj sample_values)])"
    by (simp add: onSubmit_cases schema_def sample_values_def sample_runtime_def
        sample_add_movie_def AddMovie_init_def)
  from submit_only_logs [OF submitted] show ?thesis
    using submitted by (simp add: sample_add_movie_def AddMovie_init_def)
qed

text \<open>
  Claim C2: the submit callback (the console log) runs if and only if the submitted
  values validate against the schema: \<open>name\<close> is a string of length at least 2,
  \<open>description\<close> is a string of length at least 10, and \<open>year\<close>, \<open>duration\<close> and
  \<open>genre_id\<close> each coerce to a number that the schema's number type accepts.
\<close>

theorem callback_iff_valid:
  "(\<exists>d. ConsoleLog d \<in> set (snd (onSubmit rt values s))) \<longleftrightarrow>
     (\<exists>n. own_property values ''name'' = JStr n \<and> 2 \<le> length n) \<and>
     (\<exists>d. own_property values ''description'' = JStr d \<and> 10 \<le> length d) \<and>
     number_ok rt (Number rt (own_property values ''year'')) \<and>
     number_ok rt (Number rt (own_property values ''duration'')) \<and>
     number_ok rt (Number rt (own_property values ''genre_id''))"
  unfolding parse_issues_schema [symmetric]
  by (simp add: onSubmit_cases)

theorem callback_iff_valid_witness:
  "(\<exists>d. ConsoleLog d \<in> set (snd (onSubmit sample_runtime sample_values AddMovie_init)))
   \<and> \<not> (\<exists>d. ConsoleLog d \<in> set (snd (onSubmit sample_runtime
            [(''name'', JStr ''I''), (''description'', JStr ''A thief who steals''),
             (''year'', JNum (Fin 2010)), (''duration'', JNum (Fin 148)),
             (''genre_id'', JNum (Fin 1))] AddMovie_init)))"
  using callback_iff_valid [of sample_runtime sample_values AddMovie_init]
    callback_iff_valid [of sample_runtime
      "[(''name'', JStr ''I''), (''description'', JStr ''A thief who steals''),
        (''year'', JNum (Fin 2010)), (''duration'', JNum (Fin 148)),
        (''genre_id'', JNum (Fin 1))]" AddMovie_init]
  by (simp add: sample_values_def sample_runtime_def)


section \<open>The genre request\<close>

lemma strict_root: "strict"
  by (simp add: strict_def root_def)

lemma AddMovie_mount_effects_eq:
  "AddMovie_mount_effects rt =
     replicate (if development rt then 2 else 1) (Fetch ''GET'' ''http://localhost:8000/genre'')"
  by (simp add: AddMovie_mount_effects_def effect_runs_def strict_root AddMovie_effect_def
      numeral_2_eq_2)

lemma navigate_network:
  "navigate rt p s = (s', effs) \<Longrightarrow>
     filter is_network effs =
       (if mounts s' \<noteq> mounts s \<and> genres_of s' \<noteq> None
        then replicate (if development rt then 2 else 1)
               (Fetch ''GET'' ''http://localhost:8000/genre'')
        else [])"
  by (auto simp: navigate_def matchRoutes_def router_def AddMovie_mount_effects_eq
      split: option.splits if_splits prod.splits)

lemma step_network:
  assumes "step rt ev s = (s', effs)"
  shows "filter is_network effs =
       (if mounts s' \<noteq> mounts s \<and> genres_of s' \<noteq> None
        then replicate (if development rt then 2 else 1)
               (Fetch ''GET'' ''http://localhost:8000/genre'')
        else [])"
proof (cases ev)
  case (Navigate p)
  with assms show ?thesis by (simp add: navigate_network)
next
  case (Submit vs)
  with assms show ?thesis
    by (cases "page s") (auto simp: onSubmit_cases split: if_splits)
next
  case (Settled i outcome)
  with assms show ?thesis
    by (cases "page s"; cases outcome) (auto split: if_splits)
next
  case (ClickDelete k)
  with assms show ?thesis by auto
qed

lemma step_settled_rejected:
  "outcome = NetworkError \<or> outcome = InvalidJSON \<Longrightarrow>
     step rt (Settled i outcome) s = (s, [UnhandledRejection])"
  by (cases "page s") auto

text \<open>
  Claim C3, as the specification states it, has the request issued once when the
  add-movie page mounts. The application is rendered inside \<open>StrictMode\<close>, so in a
  development build one mount of the page issues the request twice.
\<close>

theorem genre_request_once_counterexample:
  "filter is_network (snd (step sample_dev_runtime (Navigate ''/add-movie'') App_start))
     = [Fetch ''GET'' ''http://localhost:8000/genre'', Fetch ''GET'' ''http://localhost:8000/genre'']
   \<and> mounts (fst (step sample_dev_runtime (Navigate ''/add-movie'') App_start)) = 1"
  by (simp add: sample_dev_runtime_def App_start_def navigate_def matchRoutes_def router_def
      AddMovie_mount_effects_eq numeral_2_eq_2)

text \<open>
  Claim C3, amended: the only network operation of the application is the \<open>GET\<close> of
  \<open>http://localhost:8000/genre\<close> issued by the mount effect of the add-movie page. A
  step of the application issues it exactly when it mounts that page, once in a
  production build and twice in a development build (where \<open>StrictMode\<close> runs the
  effect again), and no step issues any other request, so none follows a failure.
  When a request of the mounted instance resolves, the parsed body is stored in the
  \<open>genres\<close> state whatever value it is; when \<open>fetch\<close> or \<open>json()\<close> rejects, the state of
  the application is as before and the rejection is left unhandled.
\<close>

theorem genre_request_per_mount:
  "filter is_network (snd (step rt ev s)) =
       (if mounts (fst (step rt ev s)) \<noteq> mounts s \<and> genres_of (fst (step rt ev s)) \<noteq> None
        then replicate (if development rt then 2 else 1)
               (Fetch ''GET'' ''http://localhost:8000/genre'')
        else [])
   \<and> (\<not> matchPath rt ''/'' p \<longrightarrow> matchPath rt ''/add-movie'' p \<longrightarrow>
        step rt (Navigate p) App_start =
          (\<lparr>pathname = p, page = AddMoviePage 1 AddMovie_init, mounts = 1\<rparr>,
           replicate (if development rt then 2 else 1)
             (Fetch ''GET'' ''http://localhost:8000/genre'')))
   \<and> (page s = AddMoviePage i a \<longrightarrow>
        step rt (Settled i (Json data)) s
          = (s\<lparr>page := AddMoviePage i (a\<lparr>genres_state := data\<rparr>)\<rparr>, []))
   \<and> step rt (Settled i NetworkError) s = (s, [UnhandledRejection])
   \<and> step rt (Settled i InvalidJSON) s = (s, [UnhandledRejection])"
proof -
  have mounted: "step rt (Navigate p) App_start =
          (\<lparr>pathname = p, page = AddMoviePage 1 AddMovie_init, mounts = 1\<rparr>,
           replicate (if development rt then 2 else 1)
             (Fetch ''GET'' ''http://localhost:8000/genre''))"
    if "\<not> matchPath rt ''/'' p" "matchPath rt ''/add-movie'' p"
    using that
    by (simp add: navigate_def matchRoutes_def router_def App_start_def AddMovie_mount_effects_eq)
  have stored: "step rt (Settled i (Json data)) s
          = (s\<lparr>page := AddMoviePage i (a\<lparr>genres_state := data\<rparr>)\<rparr>, [])"
    if "page s = AddMoviePage i a"
    using that by simp
  from step_network [of rt ev s "fst (step rt ev s)" "snd (step rt ev s)"] mounted stored
    step_settled_rejected [of NetworkError rt i s] step_settled_rejected [of InvalidJSON rt i s]
  show ?thesis by simp
qed

theorem genre_request_per_mount_witness:
  "step sample_runtime (Navigate ''/add-movie'') App_start
     = (sample_add_movie, [Fetch ''GET'' ''http://localhost:8000/genre''])
   \<and> step sample_dev_runtime (Navigate ''/add-movie'') App_start
     = (sample_add_movie,
        [Fetch ''GET'' ''http://localhost:8000/genre'', Fetch ''GET'' ''http://localhost:8000/genre''])
   \<and> filter is_network (snd (step sample_runtime (Settled 1 NetworkError) sample_add_movie)) = []
   \<and> step sample_runtime (Settled 1 (Json (JStr ''oops''))) sample_add_movie
     = (sample_add_movie\<lparr>page := AddMoviePage 1 (AddMovie_init\<lparr>genres_state := JStr ''oops''\<rparr>)\<rparr>,
        [])"
proof -
  have prod: "\<not> matchPath sample_runtime ''/'' ''/add-movie''"
    "matchPath sample_runtime ''/add-movie'' ''/add-movie''" "\<not> development sample_runtime"
    by (simp_all add: sample_runtime_def)
  have dev: "\<not> matchPath sample_dev_runtime ''/'' ''/add-movie''"
    "matchPath sample_dev_runtime ''/add-movie'' ''/add-movie''" "development sample_dev_runtime"
    by (simp_all add: sample_dev_runtime_def)
  have shown: "page sample_add_movie = AddMoviePage 1 AddMovie_init"
    by (simp add: sample_add_movie_def)
  from genre_request_per_mount [where rt = sample_runtime and p = "''/add-movie''"] prod
  have one: "step sample_runtime (Navigate ''/add-movie'') App_start
     = (sample_add_movie, [Fetch ''GET'' ''http://localhost:8000/genre''])"
    by (simp add: sample_add_movie_def)
  from genre_request_per_mount [where rt = sample_dev_runtime and p = "''/add-movie''"] dev
  have two: "step sample_dev_runtime (Navigate ''/add-movie'') App_start
     = (sample_add_movie,
        [Fetch ''GET'' ''http://localhost:8000/genre'', Fetch ''GET'' ''http://localhost:8000/genre''])"
    by (simp add: sample_add_movie_def numeral_2_eq_2)
  from genre_request_per_mount
    [where rt = sample_runtime and s = sample_add_movie and i = 1 and a = AddMovie_init
      and data = "JStr ''oops''"] shown
  have settled: "step sample_runtime (Settled 1 NetworkError) sample_add_movie
      = (sample_add_movie, [UnhandledRejection])"
    "step sample_runtime (Settled 1 (Json (JStr ''oops''))) sample_add_movie
     = (sample_add_movie\<lparr>page := AddMoviePage 1 (AddMovie_init\<lparr>genres_state := JStr ''oops''\<rparr>)\<rparr>,
        [])"
    by blast+
  from one two settled show ?thesis by simp
qed

section \<open>The movie list of the home page\<close>

lemma Array_map_const: "Array_map (\<lambda>x index. c) xs = replicate (length xs) c"
  by (simp add: Array_map_def case_prod_unfold map_replicate_const)

lemma Home_card_const: "Home_card = (\<lambda>x index. Home_card JUndefined 0)"
  by (intro ext) simp

lemma Home_cards_replicate: "Home_cards ms = replicate (length ms) (Home_card JUndefined 0)"
  unfolding Home_cards_def by (subst Home_card_const) (rule Array_map_const)

lemma buttons_no_onClick:
  "map (\<lambda>b. attr_of b ''onClick'') (elements ''Button'' (Home ms)) = replicate (length ms) None"
  by (simp add: Home_def Home_cards_replicate movie_def map_concat)

lemma step_keeps_movies:
  "step rt ev s = (s', effs) \<Longrightarrow> page s = HomePage ms \<Longrightarrow> page s' = HomePage ms' \<Longrightarrow> ms' = ms"
  by (cases ev)
     (auto simp: navigate_def matchRoutes_def router_def
       split: option.splits if_splits prod.splits fetch_outcome.splits)

lemma step_home_init:
  "step rt ev s = (s', effs) \<Longrightarrow> (\<forall>ms. page s = HomePage ms \<longrightarrow> ms = Home_init)
    \<Longrightarrow> page s' = HomePage ms' \<Longrightarrow> ms' = Home_init"
  by (cases ev; cases "page s")
     (auto simp: navigate_def matchRoutes_def router_def
       split: option.splits if_splits prod.splits)

lemma run_home_init:
  "run rt evs s = (s', effs) \<Longrightarrow> (\<forall>ms. page s = HomePage ms \<longrightarrow> ms = Home_init)
    \<Longrightarrow> page s' = HomePage ms' \<Longrightarrow> ms' = Home_init"
proof (induction evs arbitrary: s effs)
  case Nil
  then show ?case by simp
next
  case (Cons e es)
  obtain s1 effs1 where first: "step rt e s = (s1, effs1)" by (cases "step rt e s")
  obtain s2 effs2 where rest: "run rt es s1 = (s2, effs2)" by (cases "run rt es s1")
  from Cons.prems(1) first rest have same: "s2 = s'" by simp
  have "\<forall>ms. page s1 = HomePage ms \<longrightarrow> ms = Home_init"
    using step_home_init [OF first Cons.prems(2)] by blast
  with Cons.IH [of s1 effs2] rest same Cons.prems(3) show ?case by blast
qed

text \<open>
  Claim C4: the movie list of the home page starts as the same hard-coded movie
  (a record of \<open>id\<close>, \<open>title\<close>, \<open>year\<close>, \<open>genre\<close>, \<open>rating\<close>, \<open>description\<close>) four
  times, and nothing changes it: whatever events the application goes through
  from its start, a mounted home page holds exactly that list, and no single step
  turns the list of a mounted home page into another one. The only control the page
  renders, the \<open>Delete\<close> button of each card, has no click handler.
\<close>

theorem movies_never_modified:
  "Home_init = [movie, movie, movie, movie]
   \<and> object_keys movie = [''id'', ''title'', ''year'', ''genre'', ''rating'', ''description'']
   \<and> (run rt evs App_start = (s, effs) \<longrightarrow> page s = HomePage ms \<longrightarrow>
        ms = [movie, movie, movie, movie])
   \<and> (step rt ev s0 = (s1, effs1) \<longrightarrow> page s0 = HomePage ms0 \<longrightarrow> page s1 = HomePage ms1 \<longrightarrow>
        ms1 = ms0)
   \<and> map (\<lambda>b. attr_of b ''onClick'') (elements ''Button'' (Home ms0)) = replicate (length ms0) None"
proof -
  have "run rt evs App_start = (s, effs) \<Longrightarrow> page s = HomePage ms \<Longrightarrow> ms = Home_init"
    using run_home_init [of rt evs App_start s effs ms] by (simp add: App_start_def)
  then show ?thesis
    using step_keeps_movies [of rt ev s0 s1 effs1 ms0 ms1] buttons_no_onClick [of ms0]
    by (auto simp: Home_init_def) (simp add: movie_def)
qed

theorem movies_never_modified_witness:
  "run sample_runtime [Navigate ''/'', ClickDelete 0, Settled 1 (Json genres), Navigate ''/'']
      App_start
     = (\<lparr>pathname = ''/'', page = HomePage [movie, movie, movie, movie], mounts = 1\<rparr>, [])
   \<and> step sample_runtime (ClickDelete 2)
        \<lparr>pathname = ''/'', page = HomePage [movie, movie, movie, movie], mounts = 1\<rparr>
     = (\<lparr>pathname = ''/'', page = HomePage [movie, movie, movie, movie], mounts = 1\<rparr>, [])"
proof -
  have ran: "run sample_runtime
      [Navigate ''/'', ClickDelete 0, Settled 1 (Json genres), Navigate ''/''] App_start
     = (\<lparr>pathname = ''/'', page = HomePage Home_init, mounts = 1\<rparr>, [])"
    by (simp add: sample_runtime_def App_start_def navigate_def matchRoutes_def router_def)
  have shown: "page \<lparr>pathname = ''/'', page = HomePage Home_init, mounts = 1\<rparr>
      = HomePage Home_init"
    by simp
  have clicked: "step sample_runtime (ClickDelete 2)
        \<lparr>pathname = ''/'', page = HomePage Home_init, mounts = 1\<rparr>
     = (\<lparr>pathname = ''/'', page = HomePage Home_init, mounts = 1\<rparr>, [])"
    by simp
  from movies_never_modified
      [where rt = sample_runtime
        and evs = "[Navigate ''/'', ClickDelete 0, Settled 1 (Json genres), Navigate ''/'']"
        and s = "\<lparr>pathname = ''/'', page = HomePage Home_init, mounts = 1\<rparr>"
        and effs = "[]" and ms = Home_init]
    ran shown
  have "Home_init = [movie, movie, movie, movie]" by blast
  with ran clicked show ?thesis by simp
qed


section \<open>The two shapes\<close>

lemma parse_output_keys:
  "parse_issues rt shape input = [] \<Longrightarrow> map fst (parse_output rt shape input) = map fst shape"
  by (induction rt shape input rule: parse_issues.induct) (auto split: sum.splits)

lemma resolver_keys:
  "zodResolver rt schema vs = Inr d \<Longrightarrow>
     object_keys d = [''name'', ''description'', ''year'', ''duration'', ''genre_id'']"
proof -
  assume "zodResolver rt schema vs = Inr d"
  then have "parse_issues rt schema vs = []" and d: "d = JObj (parse_output rt schema vs)"
    by (auto simp: zodResolver_def safeParse_def split: if_splits)
  then have "object_keys d = map fst schema" by (simp add: parse_output_keys)
  then show ?thesis by (simp add: schema_def)
qed

lemma step_logs:
  assumes "step rt ev s = (s', effs)" and "ConsoleLog d \<in> set effs"
  shows "\<exists>vs. ev = Submit vs \<and> zodResolver rt schema vs = Inr d"
proof (cases ev)
  case (Navigate p)
  with assms show ?thesis
    by (auto simp: navigate_def matchRoutes_def router_def AddMovie_mount_effects_eq
        split: option.splits if_splits prod.splits)
next
  case (Submit vs)
  with assms show ?thesis
    by (cases "page s")
       (auto simp: onSubmit_cases zodResolver_def safeParse_def split: if_splits)
next
  case (Settled i outcome)
  with assms show ?thesis
    by (cases "page s"; cases outcome) (auto split: if_splits)
next
  case (ClickDelete k)
  with assms show ?thesis by auto
qed

lemma run_logs:
  "run rt evs s = (s', effs) \<Longrightarrow> ConsoleLog d \<in> set effs
    \<Longrightarrow> \<exists>vs. Submit vs \<in> set evs \<and> zodResolver rt schema vs = Inr d"
proof (induction evs arbitrary: s effs)
  case Nil
  then show ?case by simp
next
  case (Cons e es)
  obtain s1 effs1 where first: "step rt e s = (s1, effs1)" by (cases "step rt e s")
  obtain s2 effs2 where rest: "run rt es s1 = (s2, effs2)" by (cases "run rt es s1")
  from Cons.prems(1) first rest have "effs = effs1 @ effs2" and same: "s2 = s'" by simp_all
  with Cons.prems(2) consider "ConsoleLog d \<in> set effs1" | "ConsoleLog d \<in> set effs2" by auto
  then show ?case
  proof cases
    case 1
    from step_logs [OF first 1] show ?thesis by auto
  next
    case 2
    from Cons.IH [of s1 effs2] rest same 2 show ?thesis by auto
  qed
qed

text \<open>
  Claim C5, as the specification states it, says that \<open>year\<close> is the only field name
  the form schema and the movie record share. They also share \<open>description\<close>.
\<close>

theorem shared_fields_counterexample:
  "\<not> (set (map fst schema) \<inter> set (object_keys movie) = {''year''})"
  by (simp add: schema_def movie_def)

text \<open>
  Claim C5, amended: the form schema has exactly the five fields \<open>name\<close>,
  \<open>description\<close>, \<open>year\<close>, \<open>duration\<close>, \<open>genre_id\<close>, and is separate from the movie
  record of \<open>id\<close>, \<open>title\<close>, \<open>year\<close>, \<open>genre\<close>, \<open>rating\<close>, \<open>description\<close>; the field names they
  share are \<open>year\<close> and \<open>description\<close>; and no function maps values of one shape to the
  other. Whatever is submitted, in whatever run of the application, the movie list
  of the home page is the four hard-coded movies and never holds a form value; and
  every object the application logs is the schema's output for values that were
  submitted, with the five fields of the form, never a movie.
\<close>

theorem shared_fields:
  "map fst schema = [''name'', ''description'', ''year'', ''duration'', ''genre_id'']
   \<and> object_keys movie = [''id'', ''title'', ''year'', ''genre'', ''rating'', ''description'']
   \<and> set (map fst schema) \<inter> set (object_keys movie) = {''year'', ''description''}
   \<and> (run rt evs App_start = (s, effs) \<longrightarrow>
        (page s = HomePage ms \<longrightarrow> ms = [movie, movie, movie, movie]) \<and>
        (ConsoleLog d \<in> set effs \<longrightarrow>
           (\<exists>vs. Submit vs \<in> set evs \<and> zodResolver rt schema vs = Inr d) \<and>
           object_keys d = [''name'', ''description'', ''year'', ''duration'', ''genre_id'']))"
proof -
  have names: "map fst schema = [''name'', ''description'', ''year'', ''duration'', ''genre_id'']
   \<and> object_keys movie = [''id'', ''title'', ''year'', ''genre'', ''rating'', ''description'']
   \<and> set (map fst schema) \<inter> set (object_keys movie) = {''year'', ''description''}"
    by (auto simp: schema_def movie_def)
  have list: "ms = [movie, movie, movie, movie]"
    if "run rt evs App_start = (s, effs)" "page s = HomePage ms"
    using run_home_init [OF that(1) _ that(2)] by (simp add: App_start_def Home_init_def)
  have logged: "(\<exists>vs. Submit vs \<in> set evs \<and> zodResolver rt schema vs = Inr d) \<and>
           object_keys d = [''name'', ''description'', ''year'', ''duration'', ''genre_id'']"
    if "run rt evs App_start = (s, effs)" "ConsoleLog d \<in> set effs"
    using run_logs [OF that] resolver_keys by blast
  from names list logged show ?thesis by blast
qed

theorem shared_fields_witness:
  "run sample_runtime [Navigate ''/add-movie'', Submit sample_values, Navigate ''/''] App_start
     = (\<lparr>pathname = ''/'', page = HomePage [movie, movie, movie, movie], mounts = 2\<rparr>,
        [Fetch ''GET'' ''http://localhost:8000/genre'', ConsoleLog (JObj sample_values)])
   \<and> zodResolver sample_runtime schema sample_values = Inr (JObj sample_values)
   \<and> object_keys (JObj sample_values)
       = [''name'', ''description'', ''year'', ''duration'', ''genre_id'']"
proof -
  have ran: "run sample_runtime [Navigate ''/add-movie'', Submit sample_values, Navigate ''/'']
      App_start
     = (\<lparr>pathname = ''/'', page = HomePage Home_init, mounts = 2\<rparr>,
        [Fetch ''GET'' ''http://localhost:8000/genre'', ConsoleLog (JObj sample_values)])"
    by (simp add: sample_runtime_def App_start_def navigate_def matchRoutes_def router_def
        AddMovie_init_def AddMovie_mount_effects_eq onSubmit_cases schema_def sample_values_def)
  have shown: "page \<lparr>pathname = ''/'', page = HomePage Home_init, mounts = 2\<rparr>
      = HomePage Home_init"
    by simp
  have logged: "ConsoleLog (JObj sample_values)
      \<in> set [Fetch ''GET'' ''http://localhost:8000/genre'', ConsoleLog (JObj sample_values)]"
    by simp
  have resolved: "zodResolver sample_runtime schema sample_values = Inr (JObj sample_values)"
    by (simp add: zodResolver_def safeParse_def schema_def sample_values_def sample_runtime_def)
  from shared_fields
      [where rt = sample_runtime
        and evs = "[Navigate ''/add-movie'', Submit sample_values, Navigate ''/'']"
        and ms = Home_init and d = "JObj sample_values"]
    ran shown logged
  have "Home_init = [movie, movie, movie, movie]
    \<and> object_keys (JObj sample_values)
       = [''name'', ''description'', ''year'', ''duration'', ''genre_id'']"
    by blast
  with ran resolved show ?thesis by simp
qed

section \<open>The cards of the home page\<close>



section \<open>The options of the genre select\<close>

lemma SelectItems_state:
  "SelectItems (AddMovie_scope a # outer) = SelectItems [[(''genres'', genres_state a)]]"
  by (simp add: SelectItems_def AddMovie_scope_def)

lemma step_keeps_no_genres:
  assumes "step rt ev s = (s', effs)"
    and "\<forall>i d. ev \<noteq> Settled i (Json d)"
    and "\<forall>i a. page s = AddMoviePage i a \<longrightarrow> genres_state a = JArr []"
    and "page s' = AddMoviePage j b"
  shows "genres_state b = JArr []"
proof (cases ev)
  case (Navigate p)
  with assms show ?thesis
    by (auto simp: navigate_def matchRoutes_def router_def AddMovie_init_def
        split: option.splits if_splits prod.splits)
next
  case (Submit vs)
  with assms show ?thesis
    by (cases "page s") (auto simp: onSubmit_cases split: if_splits)
next
  case (Settled i outcome)
  with assms show ?thesis
    by (cases "page s"; cases outcome) (auto split: if_splits)
next
  case (ClickDelete k)
  with assms show ?thesis by auto
qed

lemma run_keeps_no_genres:
  "run rt evs s = (s', effs) \<Longrightarrow> \<forall>e \<in> set evs. \<forall>i d. e \<noteq> Settled i (Json d)
    \<Longrightarrow> \<forall>i a. page s = AddMoviePage i a \<longrightarrow> genres_state a = JArr []
    \<Longrightarrow> page s' = AddMoviePage j b \<Longrightarrow> genres_state b = JArr []"
proof (induction evs arbitrary: s effs)
  case Nil
  then show ?case by simp
next
  case (Cons e es)
  obtain s1 effs1 where first: "step rt e s = (s1, effs1)" by (cases "step rt e s")
  obtain s2 effs2 where rest: "run rt es s1 = (s2, effs2)" by (cases "run rt es s1")
  from Cons.prems(1) first rest have same: "s2 = s'" by simp
  from Cons.prems(2) have e: "\<forall>i d. e \<noteq> Settled i (Json d)"
    and es: "\<forall>e \<in> set es. \<forall>i d. e \<noteq> Settled i (Json d)" by simp_all
  have "\<forall>i a. page s1 = AddMoviePage i a \<longrightarrow> genres_state a = JArr []"
    using step_keeps_no_genres [OF first e Cons.prems(3)] by blast
  with Cons.IH [of s1 effs2] rest same es Cons.prems(4) show ?case by blast
qed

lemma SelectItem_self: "SelectItem g = Inr x \<Longrightarrow> elements ''SelectItem'' x = [x]"
  by (auto simp: SelectItem_def split: sum.splits)

lemma items_self:
  "Array_map_throwing SelectItem gs = Inr items
    \<Longrightarrow> concat (map (elements ''SelectItem'') items) = items"
  by (induction gs arbitrary: items) (auto split: sum.splits dest: SelectItem_self)

lemma AddMovie_renders:
  "genres_state a = JArr gs \<Longrightarrow> Array_map_throwing SelectItem gs = Inr items
    \<Longrightarrow> \<exists>t. AddMovie a = Inr t \<and> elements ''SelectItem'' t = items"
  by (simp add: AddMovie_def AddMovie_form_def SelectItems_def AddMovie_scope_def items_self)

lemma AddMovie_options:
  assumes "AddMovie a = Inr t"
  shows "\<exists>gs. genres_state a = JArr gs
    \<and> Array_map_throwing SelectItem gs = Inr (elements ''SelectItem'' t)"
proof -
  from assms obtain gs items where gs: "genres_state a = JArr gs"
    and items: "Array_map_throwing SelectItem gs = Inr items"
    by (auto simp: AddMovie_def SelectItems_def AddMovie_scope_def
        split: sum.splits option.splits jsval.splits)
  from AddMovie_renders [OF gs items] assms have "elements ''SelectItem'' t = items" by auto
  with gs items show ?thesis by simp
qed

lemma Layout_options: "elements ''SelectItem'' (Layout p [c]) = elements ''SelectItem'' c"
  by (simp add: Layout_def Layout_nav_def)

text \<open>
  Claim C9: the options of the genre select come from the \<open>genres\<close> state alone. The
  identifier resolves to the state cell whatever the enclosing scope binds, so the
  module-level list of five genres (which would give options) is never read: the
  \<open>SelectItem\<close> elements of the rendered component are exactly the items made from
  the array in the state, and the component renders whenever those items can be
  made. The state starts empty, so the freshly mounted component shows no option,
  and in every run of the application in which no request has resolved with a
  body, however many have failed, the add-movie page is rendered with no option.
\<close>

theorem options_from_state_only:
  "SelectItems [AddMovie_scope a, outer] = SelectItems [[(''genres'', genres_state a)]]
   \<and> SelectItems [module_scope] \<noteq> Inr []
   \<and> (AddMovie a = Inr t \<longrightarrow>
        (\<exists>gs. genres_state a = JArr gs
           \<and> Array_map_throwing SelectItem gs = Inr (elements ''SelectItem'' t)))
   \<and> (genres_state a = JArr gs \<longrightarrow> Array_map_throwing SelectItem gs = Inr items \<longrightarrow>
        (\<exists>t. AddMovie a = Inr t \<and> elements ''SelectItem'' t = items))
   \<and> (\<exists>t. AddMovie AddMovie_init = Inr t \<and> elements ''SelectItem'' t = [])
   \<and> ((\<forall>e \<in> set evs. \<forall>i d. e \<noteq> Settled i (Json d)) \<longrightarrow> run rt evs App_start = (s, effs) \<longrightarrow>
        page s = AddMoviePage j b \<longrightarrow>
        (\<exists>t. view s = Inr t \<and> elements ''SelectItem'' t = []))"
proof -
  have none: "\<exists>t. AddMovie c = Inr t \<and> elements ''SelectItem'' t = []"
    if "genres_state c = JArr []" for c
    using AddMovie_renders [OF that, of "[]"] by simp
  have shown: "\<exists>t. view s = Inr t \<and> elements ''SelectItem'' t = []"
    if "\<forall>e \<in> set evs. \<forall>i d. e \<noteq> Settled i (Json d)" "run rt evs App_start = (s, effs)"
      "page s = AddMoviePage j b"
  proof -
    have "genres_state b = JArr []"
      using run_keeps_no_genres [OF that(2) that(1) _ that(3)] by (simp add: App_start_def)
    from none [OF this] obtain t where "AddMovie b = Inr t" "elements ''SelectItem'' t = []"
      by blast
    with that(3) show ?thesis by (simp add: view_def Layout_options)
  qed
  have static: "SelectItems [module_scope] \<noteq> Inr []"
    by (simp add: SelectItems_def module_scope_def genres_def SelectItem_def)
  have fresh: "\<exists>t. AddMovie AddMovie_init = Inr t \<and> elements ''SelectItem'' t = []"
    by (rule none) (simp add: AddMovie_init_def)
  from SelectItems_state [of a "[outer]"] static AddMovie_options [of a t]
    AddMovie_renders [of a gs items] fresh shown
  show ?thesis by blast
qed

theorem options_from_state_only_witness:
  "run sample_runtime [Navigate ''/add-movie'', Settled 1 NetworkError, Submit []] App_start
       = (\<lparr>pathname = ''/add-movie'',
           page = AddMoviePage 1 \<lparr>genres_state = JArr [],
             errors = [(''name'', invalid_type), (''description'', invalid_type),
                       (''year'', invalid_type), (''duration'', invalid_type),
                       (''genre_id'', invalid_type)], isSubmitting = False\<rparr>,
           mounts = 1\<rparr>,
          [Fetch ''GET'' ''http://localhost:8000/genre'', UnhandledRejection])
   \<and> map_sum id (elements ''SelectItem'')
        (view \<lparr>pathname = ''/add-movie'',
           page = AddMoviePage 1 \<lparr>genres_state = JArr [],
             errors = [(''name'', invalid_type), (''description'', invalid_type),
                       (''year'', invalid_type), (''duration'', invalid_type),
                       (''genre_id'', invalid_type)], isSubmitting = False\<rparr>,
           mounts = 1\<rparr>) = Inr []
   \<and> map_sum id (elements ''SelectItem'')
        (AddMovie (AddMovie_init\<lparr>genres_state := JArr [JObj [(''id'', JNum (Fin 7)),
           (''name'', JStr ''Western'')]]\<rparr>))
       = Inr [El ''SelectItem'' [(''key'', Val (JNum (Fin 7))), (''value'', Val (JNum (Fin 7)))]
                [Value (JStr ''Western'')]]"
proof -
  have no_json: "\<forall>e \<in> set [Navigate ''/add-movie'', Settled 1 NetworkError, Submit []].
      \<forall>i d. e \<noteq> Settled i (Json d)"
    by simp
  have ran: "run sample_runtime [Navigate ''/add-movie'', Settled 1 NetworkError, Submit []]
      App_start
       = (\<lparr>pathname = ''/add-movie'',
           page = AddMoviePage 1 \<lparr>genres_state = JArr [],
             errors = [(''name'', invalid_type), (''description'', invalid_type),
                       (''year'', invalid_type), (''duration'', invalid_type),
                       (''genre_id'', invalid_type)], isSubmitting = False\<rparr>,
           mounts = 1\<rparr>,
          [Fetch ''GET'' ''http://localhost:8000/genre'', UnhandledRejection])"
    by (simp add: sample_runtime_def App_start_def navigate_def matchRoutes_def router_def
        AddMovie_init_def AddMovie_mount_effects_eq onSubmit_cases schema_def)
  have shown: "page \<lparr>pathname = ''/add-movie'',
           page = AddMoviePage 1 \<lparr>genres_state = JArr [],
             errors = [(''name'', invalid_type), (''description'', invalid_type),
                       (''year'', invalid_type), (''duration'', invalid_type),
                       (''genre_id'', invalid_type)], isSubmitting = False\<rparr>,
           mounts = 1\<rparr>
      = AddMoviePage 1 \<lparr>genres_state = JArr [],
             errors = [(''name'', invalid_type), (''description'', invalid_type),
                       (''year'', invalid_type), (''duration'', invalid_type),
                       (''genre_id'', invalid_type)], isSubmitting = False\<rparr>"
    by simp
  from options_from_state_only
      [where evs = "[Navigate ''/add-movie'', Settled 1 NetworkError, Submit []]"
        and rt = sample_runtime]
    no_json ran shown
  obtain t where t: "view \<lparr>pathname = ''/add-movie'',
           page = AddMoviePage 1 \<lparr>genres_state = JArr [],
             errors = [(''name'', invalid_type), (''description'', invalid_type),
                       (''year'', invalid_type), (''duration'', invalid_type),
                       (''genre_id'', invalid_type)], isSubmitting = False\<rparr>,
           mounts = 1\<rparr> = Inr t" "elements ''SelectItem'' t = []"
    by blast
  have state: "genres_state (AddMovie_init\<lparr>genres_state := JArr [JObj [(''id'', JNum (Fin 7)),
           (''name'', JStr ''Western'')]]\<rparr>)
      = JArr [JObj [(''id'', JNum (Fin 7)), (''name'', JStr ''Western'')]]"
    by simp
  have made: "Array_map_throwing SelectItem [JObj [(''id'', JNum (Fin 7)), (''name'', JStr ''Western'')]]
      = Inr [El ''SelectItem'' [(''key'', Val (JNum (Fin 7))), (''value'', Val (JNum (Fin 7)))]
                [Value (JStr ''Western'')]]"
    by (simp add: SelectItem_def)
  from options_from_state_only
      [where a = "AddMovie_init\<lparr>genres_state := JArr [JObj [(''id'', JNum (Fin 7)),
           (''name'', JStr ''Western'')]]\<rparr>"
        and gs = "[JObj [(''id'', JNum (Fin 7)), (''name'', JStr ''Western'')]]"
        and items = "[El ''SelectItem'' [(''key'', Val (JNum (Fin 7))), (''value'', Val (JNum (Fin 7)))]
                [Value (JStr ''Western'')]]"]
    state made
  obtain u where u: "AddMovie (AddMovie_init\<lparr>genres_state := JArr [JObj [(''id'', JNum (Fin 7)),
           (''name'', JStr ''Western'')]]\<rparr>) = Inr u"
    "elements ''SelectItem'' u
      = [El ''SelectItem'' [(''key'', Val (JNum (Fin 7))), (''value'', Val (JNum (Fin 7)))]
                [Value (JStr ''Western'')]]"
    by blast
  from ran t u show ?thesis by simp
qed

section \<open>The navigation bar\<close>

lemma Layout_Movies_class:
  "link_class (Layout p cs) ''Movies'' =
     Some (Str (''px-4 py-2 rounded-lg transition-colors '' @
       (if p = ''/'' then ''bg-primary text-primary-foreground''
        else ''text-foreground hover:bg-secondary hover:text-white'')))"
  by (simp add: link_class_def Layout_def Layout_nav_def)

lemma Layout_AddMovie_class:
  "link_class (Layout p cs) ''Add Movie'' =
     Some (Str (''px-4 py-2 rounded-lg transition-colors '' @
       (if p = ''/add-movie'' then ''bg-primary text-primary-foreground''
        else ''text-foreground hover:bg-secondary hover:text-white'')))"
  by (simp add: link_class_def Layout_def Layout_nav_def)

lemma view_is_Layout: "view s = Inr t \<Longrightarrow> \<exists>child. t = Layout (pathname s) [child]"
  by (cases "page s") (auto simp: view_def split: sum.splits)

text \<open>
  Claim C10: for every pathname and whatever children it is given, the \<open>Layout\<close>
  component gives the \<open>Movies\<close> link the active classes if and only if the pathname
  is \<open>/\<close>, the \<open>Add Movie\<close> link if and only if it is \<open>/add-movie\<close>, and never both; and
  so does every page the application shows, with the pathname of its location.
\<close>

theorem active_link_iff_pathname:
  "(link_class (Layout p cs) ''Movies'' = Some (Str ''px-4 py-2 rounded-lg transition-colors bg-primary text-primary-foreground'') \<longleftrightarrow> p = ''/'')
   \<and> (link_class (Layout p cs) ''Add Movie'' = Some (Str ''px-4 py-2 rounded-lg transition-colors bg-primary text-primary-foreground'') \<longleftrightarrow> p = ''/add-movie'')
   \<and> \<not> (link_class (Layout p cs) ''Movies'' = Some (Str ''px-4 py-2 rounded-lg transition-colors bg-primary text-primary-foreground'')
        \<and> link_class (Layout p cs) ''Add Movie'' = Some (Str ''px-4 py-2 rounded-lg transition-colors bg-primary text-primary-foreground''))
   \<and> (view s = Inr t \<longrightarrow>
        (link_class t ''Movies'' = Some (Str ''px-4 py-2 rounded-lg transition-colors bg-primary text-primary-foreground'') \<longleftrightarrow> pathname s = ''/'')
        \<and> (link_class t ''Add Movie'' = Some (Str ''px-4 py-2 rounded-lg transition-colors bg-primary text-primary-foreground'') \<longleftrightarrow> pathname s = ''/add-movie''))"
proof -
  have movies: "link_class (Layout q ds) ''Movies'' = Some (Str ''px-4 py-2 rounded-lg transition-colors bg-primary text-primary-foreground'') \<longleftrightarrow> q = ''/''"
    for q ds
    by (simp add: Layout_Movies_class)
  have add: "link_class (Layout q ds) ''Add Movie'' = Some (Str ''px-4 py-2 rounded-lg transition-colors bg-primary text-primary-foreground'') \<longleftrightarrow> q = ''/add-movie''"
    for q ds
    by (simp add: Layout_AddMovie_class)
  have shown: "(link_class t ''Movies'' = Some (Str ''px-4 py-2 rounded-lg transition-colors bg-primary text-primary-foreground'') \<longleftrightarrow> pathname s = ''/'')
        \<and> (link_class t ''Add Movie'' = Some (Str ''px-4 py-2 rounded-lg transition-colors bg-primary text-primary-foreground'') \<longleftrightarrow> pathname s = ''/add-movie'')"
    if "view s = Inr t"
  proof -
    from view_is_Layout [OF that] obtain child where "t = Layout (pathname s) [child]" by blast
    then show ?thesis by (simp only: movies add simp_thms)
  qed
  have apart: "\<not> (p = ''/'' \<and> p = ''/add-movie'')" by auto
  from movies [of p cs] add [of p cs] apart shown show ?thesis by blast
qed

theorem active_link_iff_pathname_witness:
  "link_class (Layout ''/'' [Home Home_init]) ''Movies'' = Some (Str ''px-4 py-2 rounded-lg transition-colors bg-primary text-primary-foreground'')
   \<and> link_class (Layout ''/'' [Home Home_init]) ''Add Movie'' \<noteq> Some (Str ''px-4 py-2 rounded-lg transition-colors bg-primary text-primary-foreground'')
   \<and> link_class (Layout ''/add-movie'' []) ''Add Movie'' = Some (Str ''px-4 py-2 rounded-lg transition-colors bg-primary text-primary-foreground'')
   \<and> link_class (Layout ''/add-movie/'' []) ''Add Movie'' \<noteq> Some (Str ''px-4 py-2 rounded-lg transition-colors bg-primary text-primary-foreground'')
   \<and> map_sum id (\<lambda>t. link_class t ''Add Movie'') (view sample_add_movie) = Inr (Some (Str ''px-4 py-2 rounded-lg transition-colors bg-primary text-primary-foreground''))
   \<and> map_sum id (\<lambda>t. link_class t ''Movies'') (view sample_add_movie) \<noteq> Inr (Some (Str ''px-4 py-2 rounded-lg transition-colors bg-primary text-primary-foreground''))"
proof -
  obtain t where t: "view sample_add_movie = Inr t"
    by (simp add: view_def sample_add_movie_def AddMovie_def SelectItems_def AddMovie_scope_def
        AddMovie_init_def)
  have at: "pathname sample_add_movie = ''/add-movie''" by (simp add: sample_add_movie_def)
  from active_link_iff_pathname [where s = sample_add_movie and t = t] t at
  have shown: "link_class t ''Add Movie'' = Some (Str ''px-4 py-2 rounded-lg transition-colors bg-primary text-primary-foreground'')"
    "link_class t ''Movies'' \<noteq> Some (Str ''px-4 py-2 rounded-lg transition-colors bg-primary text-primary-foreground'')"
    by simp_all
  from active_link_iff_pathname [of "''/''" "[Home Home_init]"]
    active_link_iff_pathname [of "''/add-movie''" "[]"]
    active_link_iff_pathname [of "''/add-movie/''" "[]"]
  have links: "link_class (Layout ''/'' [Home Home_init]) ''Movies'' = Some (Str ''px-4 py-2 rounded-lg transition-colors bg-primary text-primary-foreground'')
   \<and> link_class (Layout ''/'' [Home Home_init]) ''Add Movie'' \<noteq> Some (Str ''px-4 py-2 rounded-lg transition-colors bg-primary text-primary-foreground'')
   \<and> link_class (Layout ''/add-movie'' []) ''Add Movie'' = Some (Str ''px-4 py-2 rounded-lg transition-colors bg-primary text-primary-foreground'')
   \<and> link_class (Layout ''/add-movie/'' []) ''Add Movie'' \<noteq> Some (Str ''px-4 py-2 rounded-lg transition-colors bg-primary text-primary-foreground'')"
    by simp
  from links shown t show ?thesis by simp
qed

section \<open>The routes\<close>









section \<open>Validation errors on the page\<close>

lemma message_fields_AddMovie:
  "genres_state a = JArr [] \<Longrightarrow> AddMovie a = Inr t \<Longrightarrow>
     message_fields t = [''name'', ''year'', ''genre_id'', ''description'']"
  by (auto simp: AddMovie_def SelectItems_def AddMovie_scope_def
      message_fields_def AddMovie_form_def)

text \<open>
  Claim C6 says that every validation error is surfaced next to its field. The
  schema validates \<open>duration\<close>, but the form renders no field for it. Submitting the
  untouched form gives an error on each of the five fields, of which the page shows
  four; and with the four rendered fields valid, the submission still fails, on
  \<open>duration\<close> alone, the callback does not run, and the page shows no error at all.
\<close>

theorem duration_error_not_surfaced:
  "onSubmit rt [] AddMovie_init
     = (AddMovie_init\<lparr>errors :=
          [(''name'', invalid_type), (''description'', invalid_type), (''year'', invalid_type),
           (''duration'', invalid_type), (''genre_id'', invalid_type)]\<rparr>, [])
   \<and> (\<exists>t. AddMovie (fst (onSubmit rt [] AddMovie_init)) = Inr t
         \<and> surfaced t (errors (fst (onSubmit rt [] AddMovie_init)))
            = [(''name'', invalid_type), (''description'', invalid_type),
               (''year'', invalid_type), (''genre_id'', invalid_type)])
   \<and> onSubmit rt
        [(''name'', JStr ''Inception''), (''description'', JStr ''A thief who steals''),
         (''year'', JNum (Fin 2010)), (''genre_id'', JNum (Fin 1))] AddMovie_init
       = (AddMovie_init\<lparr>errors := [(''duration'', invalid_type)]\<rparr>, [])
   \<and> (\<exists>t. AddMovie (AddMovie_init\<lparr>errors := [(''duration'', invalid_type)]\<rparr>) = Inr t
         \<and> message_fields t = [''name'', ''year'', ''genre_id'', ''description'']
         \<and> surfaced t [(''duration'', invalid_type)] = [])"
proof -
  have empty: "onSubmit rt [] AddMovie_init
     = (AddMovie_init\<lparr>errors :=
          [(''name'', invalid_type), (''description'', invalid_type), (''year'', invalid_type),
           (''duration'', invalid_type), (''genre_id'', invalid_type)]\<rparr>, [])"
    by (simp add: onSubmit_cases schema_def AddMovie_init_def)
  obtain t where t: "AddMovie (fst (onSubmit rt [] AddMovie_init)) = Inr t"
    by (simp add: empty) (simp add: AddMovie_def SelectItems_def AddMovie_scope_def AddMovie_init_def)
  have "message_fields t = [''name'', ''year'', ''genre_id'', ''description'']"
    by (rule message_fields_AddMovie [OF _ t]) (simp add: empty, simp add: AddMovie_init_def)
  then have four: "surfaced t (errors (fst (onSubmit rt [] AddMovie_init)))
            = [(''name'', invalid_type), (''description'', invalid_type),
               (''year'', invalid_type), (''genre_id'', invalid_type)]"
    by (simp add: surfaced_def empty)
  obtain u where u: "AddMovie (AddMovie_init\<lparr>errors := [(''duration'', invalid_type)]\<rparr>) = Inr u"
    by (simp add: AddMovie_def SelectItems_def AddMovie_scope_def AddMovie_init_def)
  have fields: "message_fields u = [''name'', ''year'', ''genre_id'', ''description'']"
    by (rule message_fields_AddMovie [OF _ u]) (simp add: AddMovie_init_def)
  have hidden: "surfaced u [(''duration'', invalid_type)] = []"
    unfolding surfaced_def fields by simp
  have filled: "onSubmit rt
      [(''name'', JStr ''Inception''), (''description'', JStr ''A thief who steals''),
       (''year'', JNum (Fin 2010)), (''genre_id'', JNum (Fin 1))] AddMovie_init
     = (AddMovie_init\<lparr>errors := [(''duration'', invalid_type)]\<rparr>, [])"
    by (simp add: onSubmit_cases schema_def AddMovie_init_def)
  from empty t four filled u fields hidden show ?thesis by blast
qed

end
